theory Spec2Isabelle
  imports Complex_Main "HOL-Library.Sublist" "HOL-Library.Log_Nat"
begin

section \<open>JavaScript numbers\<close>

text \<open>
  The TypeScript type \<open>number\<close>: the IEEE 754 double-precision values. Besides the
  finite values it holds \<open>NaN\<close>, \<open>Infinity\<close> and \<open>-Infinity\<close>, which \<open>parseFloat\<close> and
  \<open>parseInt\<close> can return and which \<open>isNaN\<close> and the comparisons of the source tell
  apart. A finite value is given by the real number it denotes; the two zeros are not
  told apart.
\<close>

datatype number = NaN | PosInfinity | NegInfinity | Fin real

fun isNaN :: "number \<Rightarrow> bool" where
  "isNaN NaN = True"
| "isNaN _ = False"

text \<open>
  Rounding. Every arithmetic operation delivers the double nearest to the exact result, a
  tie going to the even significand, and an infinity when that nearest value would reach
  \<open>2 ^ 1024\<close>. \<open>expo x\<close> is the binary exponent of \<open>x\<close>: \<open>2 ^ expo x \<le> \<bar>x\<bar> < 2 ^ (expo x + 1)\<close>.
  \<open>quantum x\<close> is the distance between neighbouring doubles at \<open>x\<close>: 53 significant bits,
  and \<open>2 ^ (-1074)\<close> below the normal range. \<open>rne\<close> rounds to the nearest integer, a tie
  going to the even one.
\<close>

definition expo :: "real \<Rightarrow> int" where
  "expo x = (if 1 \<le> \<bar>x\<bar> then bitlen \<lfloor>\<bar>x\<bar>\<rfloor> - 1 else - bitlen (\<lceil>1 / \<bar>x\<bar>\<rceil> - 1))"

definition rne :: "real \<Rightarrow> int" where
  "rne z = (if z - of_int \<lfloor>z\<rfloor> < 1 / 2 then \<lfloor>z\<rfloor>
            else if 1 / 2 < z - of_int \<lfloor>z\<rfloor> then \<lfloor>z\<rfloor> + 1
            else if even \<lfloor>z\<rfloor> then \<lfloor>z\<rfloor> else \<lfloor>z\<rfloor> + 1)"

definition quantum :: "real \<Rightarrow> real" where
  "quantum x = 2 powi (max (expo x) (- 1022) - 52)"

definition nearest :: "real \<Rightarrow> real" where
  "nearest x = of_int (rne (x / quantum x)) * quantum x"

definition fl :: "real \<Rightarrow> number" where
  "fl x =
     (if x = 0 then Fin 0
      else if 2 powi 1024 \<le> \<bar>nearest x\<bar> then (if 0 < x then PosInfinity else NegInfinity)
      else Fin (nearest x))"

text \<open>\<open>a + b\<close>\<close>

fun num_add :: "number \<Rightarrow> number \<Rightarrow> number" where
  "num_add (Fin a) (Fin b) = fl (a + b)"
| "num_add NaN _ = NaN"
| "num_add _ NaN = NaN"
| "num_add PosInfinity NegInfinity = NaN"
| "num_add NegInfinity PosInfinity = NaN"
| "num_add PosInfinity _ = PosInfinity"
| "num_add _ PosInfinity = PosInfinity"
| "num_add NegInfinity _ = NegInfinity"
| "num_add _ NegInfinity = NegInfinity"

text \<open>\<open>a <= b\<close> and \<open>a > b\<close>: both are false as soon as one side is \<open>NaN\<close>.\<close>

fun num_le :: "number \<Rightarrow> number \<Rightarrow> bool" where
  "num_le (Fin a) (Fin b) = (a \<le> b)"
| "num_le NaN _ = False"
| "num_le _ NaN = False"
| "num_le NegInfinity _ = True"
| "num_le _ PosInfinity = True"
| "num_le PosInfinity _ = False"
| "num_le _ NegInfinity = False"

fun num_gt :: "number \<Rightarrow> number \<Rightarrow> bool" where
  "num_gt (Fin a) (Fin b) = (a > b)"
| "num_gt NaN _ = False"
| "num_gt _ NaN = False"
| "num_gt NegInfinity _ = False"
| "num_gt _ PosInfinity = False"
| "num_gt PosInfinity _ = True"
| "num_gt _ NegInfinity = True"

text \<open>\<open>a / b\<close>. Dividing by zero does not fail in JavaScript: it gives an infinity, or
  \<open>NaN\<close> for \<open>0 / 0\<close> (the zero divisor is taken as \<open>+0\<close>).\<close>

fun num_div :: "number \<Rightarrow> number \<Rightarrow> number" where
  "num_div (Fin a) (Fin b) =
     (if b \<noteq> 0 then fl (a / b)
      else if a = 0 then NaN
      else if a > 0 then PosInfinity else NegInfinity)"
| "num_div NaN _ = NaN"
| "num_div _ NaN = NaN"
| "num_div (Fin a) _ = Fin 0"
| "num_div PosInfinity (Fin b) = (if b \<ge> 0 then PosInfinity else NegInfinity)"
| "num_div NegInfinity (Fin b) = (if b \<ge> 0 then NegInfinity else PosInfinity)"
| "num_div _ _ = NaN"

text \<open>\<open>a * b\<close>\<close>

fun num_sign :: "number \<Rightarrow> int" where
  "num_sign (Fin a) = (if a > 0 then 1 else if a < 0 then -1 else 0)"
| "num_sign PosInfinity = 1"
| "num_sign NegInfinity = -1"
| "num_sign NaN = 0"

fun num_mul :: "number \<Rightarrow> number \<Rightarrow> number" where
  "num_mul (Fin a) (Fin b) = fl (a * b)"
| "num_mul NaN _ = NaN"
| "num_mul _ NaN = NaN"
| "num_mul a b =
     (if num_sign a * num_sign b = 0 then NaN
      else if num_sign a * num_sign b > 0 then PosInfinity else NegInfinity)"

text \<open>\<open>Math.round\<close>: the integer nearest to its argument, a tie going up. That integer is
  a double whenever the argument is one, so no rounding of the result is involved.\<close>

fun Math_round :: "number \<Rightarrow> number" where
  "Math_round (Fin a) = Fin (of_int \<lfloor>a + 1 / 2\<rfloor>)"
| "Math_round x = x"


section \<open>Data model (lib/types.ts)\<close>

record MeasurementRow =
  row_id :: string
  weightKg :: number
  pcs :: number
  timestamp :: int

record SaleRecord =
  sale_id :: string
  totalWeightKg :: number
  totalWeightGrams :: number
  totalPcs :: number
  averageWeightKg :: number
  averageWeightGrams :: number
  rows :: "MeasurementRow list"
  createdAt :: int


section \<open>The measurement screen\<close>

text \<open>
  The component state is the list \<open>rows\<close>, newest first. The derived values are
  recomputed from it on every render; \<open>reduce\<close> is a left fold from \<open>0\<close>.
\<close>

definition Measurement_totalWeight :: "MeasurementRow list \<Rightarrow> number" where
  "Measurement_totalWeight rs = foldl (\<lambda>sum r. num_add sum (weightKg r)) (Fin 0) rs"

definition Measurement_totalPcs :: "MeasurementRow list \<Rightarrow> number" where
  "Measurement_totalPcs rs = foldl (\<lambda>sum r. num_add sum (pcs r)) (Fin 0) rs"

definition Measurement_avgWeight :: "MeasurementRow list \<Rightarrow> number" where
  "Measurement_avgWeight rs =
     (if num_gt (Measurement_totalPcs rs) (Fin 0)
      then num_div (Measurement_totalWeight rs) (Measurement_totalPcs rs)
      else Fin 0)"

text \<open>
  The way \<open>handleAddRow\<close> gives up without touching \<open>rows\<close>: its early return after the
  error haptic.
\<close>

datatype error = ValidationError

text \<open>
  \<open>handleAddRow\<close>. Its inputs are \<open>weight = parseFloat(weightInput)\<close>,
  \<open>pcs = parseInt(pcsInput, 10)\<close>, the value of \<open>Crypto.randomUUID()\<close> and the value of
  \<open>Date.now()\<close>. The result is the outcome (the new row, or the early return) and the
  list \<open>rows\<close> afterwards.
\<close>

definition handleAddRow ::
  "number \<Rightarrow> number \<Rightarrow> string \<Rightarrow> int \<Rightarrow> MeasurementRow list
     \<Rightarrow> (error + MeasurementRow) \<times> MeasurementRow list" where
  "handleAddRow weight pcsv uuid now rs =
     (if isNaN weight \<or> num_le weight (Fin 0) then (Inl ValidationError, rs)
      else if isNaN pcsv \<or> num_le pcsv (Fin 0) then (Inl ValidationError, rs)
      else
        let newRow = \<lparr>row_id = uuid, weightKg = weight, pcs = pcsv, timestamp = now\<rparr>
        in (Inr newRow, newRow # rs))"

text \<open>The later revision of the screen tests the four conditions in one guard.\<close>

definition handleAddRow_v2 ::
  "number \<Rightarrow> number \<Rightarrow> string \<Rightarrow> int \<Rightarrow> MeasurementRow list
     \<Rightarrow> (error + MeasurementRow) \<times> MeasurementRow list" where
  "handleAddRow_v2 weight pcsv uuid now rs =
     (if isNaN weight \<or> num_le weight (Fin 0) \<or> isNaN pcsv \<or> num_le pcsv (Fin 0)
      then (Inl ValidationError, rs)
      else
        let newRow = \<lparr>row_id = uuid, weightKg = weight, pcs = pcsv, timestamp = now\<rparr>
        in (Inr newRow, newRow # rs))"

text \<open>
  \<open>handleDeleteLast\<close>. The handler returns no value on any path, so its model is the list
  \<open>rows\<close> afterwards. On an empty list it returns at once. On the web the head is dropped
  at once; elsewhere an alert asks first, and only its destructive button drops the head
  (\<open>slice(1)\<close>).
\<close>

datatype platform = Web | Native

datatype alert_button = Cancel | Delete

definition handleDeleteLast ::
  "platform \<Rightarrow> alert_button \<Rightarrow> MeasurementRow list \<Rightarrow> MeasurementRow list" where
  "handleDeleteLast os pressed rs =
     (if length rs = 0 then rs
      else if os = Web then drop 1 rs
      else (case pressed of
              Cancel \<Rightarrow> rs
            | Delete \<Rightarrow> drop 1 rs))"

text \<open>A run of \<open>handleAddRow\<close> calls, one per input, each on the list the previous left.\<close>

fun addRows ::
  "(number \<times> number \<times> string \<times> int) list \<Rightarrow> MeasurementRow list \<Rightarrow> MeasurementRow list" where
  "addRows [] rs = rs"
| "addRows ((weight, pcsv, uuid, now) # es) rs =
     addRows es (snd (handleAddRow weight pcsv uuid now rs))"


section \<open>The report screen\<close>

definition kgToGrams :: "number \<Rightarrow> number" where
  "kgToGrams kg = Math_round (num_mul kg (Fin 1000))"

definition Report_totalWeightKg :: "MeasurementRow list \<Rightarrow> number" where
  "Report_totalWeightKg rs = foldl (\<lambda>sum r. num_add sum (weightKg r)) (Fin 0) rs"

definition Report_totalPcs :: "MeasurementRow list \<Rightarrow> number" where
  "Report_totalPcs rs = foldl (\<lambda>sum r. num_add sum (pcs r)) (Fin 0) rs"

definition Report_avgWeightKg :: "MeasurementRow list \<Rightarrow> number" where
  "Report_avgWeightKg rs =
     (if num_gt (Report_totalPcs rs) (Fin 0)
      then num_div (Report_totalWeightKg rs) (Report_totalPcs rs)
      else Fin 0)"

definition Report_totalWeightGrams :: "MeasurementRow list \<Rightarrow> number" where
  "Report_totalWeightGrams rs = kgToGrams (Report_totalWeightKg rs)"

definition Report_avgWeightGrams :: "MeasurementRow list \<Rightarrow> number" where
  "Report_avgWeightGrams rs = kgToGrams (Report_avgWeightKg rs)"

text \<open>
  The record that \<open>handleSave\<close> builds from the values of the render: \<open>uuid\<close> is the value
  of \<open>Crypto.randomUUID()\<close>, \<open>now\<close> the value \<open>Date.now()\<close> had at render.
\<close>

definition handleSave_sale :: "string \<Rightarrow> int \<Rightarrow> MeasurementRow list \<Rightarrow> SaleRecord" where
  "handleSave_sale uuid now rs =
     \<lparr>sale_id = uuid,
      totalWeightKg = Report_totalWeightKg rs,
      totalWeightGrams = Report_totalWeightGrams rs,
      totalPcs = Report_totalPcs rs,
      averageWeightKg = Report_avgWeightKg rs,
      averageWeightGrams = Report_avgWeightGrams rs,
      rows = rs,
      createdAt = now\<rparr>"


section \<open>JavaScript values and JSON\<close>

text \<open>
  What \<open>JSON.parse\<close> returns is not checked against \<open>SaleRecord[]\<close>: the cast of
  \<open>loadSales\<close> is erased at run time. So the storage functions work on values: \<open>null\<close>,
  booleans, numbers, strings, arrays, and objects as lists of properties (each key once,
  in insertion order).
\<close>

datatype jsvalue =
  VNull
| VBool bool
| VNum number
| VStr string
| VArr "jsvalue list"
| VObj "(string \<times> jsvalue) list"

text \<open>
  \<open>json_of v\<close> is the value \<open>JSON.parse\<close> reads from the text \<open>JSON.stringify\<close> writes for
  \<open>v\<close>: \<open>NaN\<close> and the infinities are written as \<open>null\<close>, everything else comes back as it
  was.
\<close>

primrec json_of :: "jsvalue \<Rightarrow> jsvalue" where
  "json_of VNull = VNull"
| "json_of (VBool b) = VBool b"
| "json_of (VNum n) = (case n of Fin x \<Rightarrow> VNum (Fin x) | _ \<Rightarrow> VNull)"
| "json_of (VStr s) = VStr s"
| "json_of (VArr xs) = VArr (map json_of xs)"
| "json_of (VObj kvs) = VObj (map (map_prod id json_of) kvs)"

text \<open>
  A stored text is given by what \<open>JSON.parse\<close> makes of it: the empty text, a JSON text
  (given by the value it denotes), or any other text, on which \<open>JSON.parse\<close> throws.
\<close>

datatype stored_text = EmptyText | JsonText jsvalue | BadText

datatype js_error = SyntaxError | TypeError

fun JSON_parse :: "stored_text \<Rightarrow> js_error + jsvalue" where
  "JSON_parse (JsonText v) = Inr v"
| "JSON_parse EmptyText = Inl SyntaxError"
| "JSON_parse BadText = Inl SyntaxError"

definition JSON_stringify :: "jsvalue \<Rightarrow> stored_text" where
  "JSON_stringify v = JsonText (json_of v)"

text \<open>The objects that a row and a sale of the typed code are at run time.\<close>

definition row_value :: "MeasurementRow \<Rightarrow> jsvalue" where
  "row_value r =
     VObj [(''id'', VStr (row_id r)),
           (''weightKg'', VNum (weightKg r)),
           (''pcs'', VNum (pcs r)),
           (''timestamp'', VNum (Fin (of_int (timestamp r))))]"

definition sale_value :: "SaleRecord \<Rightarrow> jsvalue" where
  "sale_value s =
     VObj [(''id'', VStr (sale_id s)),
           (''totalWeightKg'', VNum (totalWeightKg s)),
           (''totalWeightGrams'', VNum (totalWeightGrams s)),
           (''totalPcs'', VNum (totalPcs s)),
           (''averageWeightKg'', VNum (averageWeightKg s)),
           (''averageWeightGrams'', VNum (averageWeightGrams s)),
           (''rows'', VArr (map row_value (rows s))),
           (''createdAt'', VNum (Fin (of_int (createdAt s))))]"

text \<open>\<open>s.id\<close>, a property access: the value the object holds under the key, \<open>undefined\<close>
  (here \<open>None\<close>) when the object has none or the value is no object. On \<open>null\<close> the
  access throws; the callers test for it.\<close>

fun get_prop :: "string \<Rightarrow> jsvalue \<Rightarrow> jsvalue option" where
  "get_prop k (VObj kvs) = map_of kvs k"
| "get_prop k _ = None"


section \<open>Storage (lib/storage.ts)\<close>

text \<open>AsyncStorage is a map from keys to texts; its own failures are not modelled.\<close>

type_synonym storage = "string \<rightharpoonup> stored_text"

definition SALES_KEY :: string where
  "SALES_KEY = ''poultry_sales_history''"

text \<open>\<open>!data\<close> holds for \<open>null\<close> (no item under the key) and for the empty text.\<close>

definition loadSales :: "storage \<Rightarrow> (js_error + jsvalue) \<times> storage" where
  "loadSales st =
     (case st SALES_KEY of
        None \<Rightarrow> (Inr (VArr []), st)
      | Some data \<Rightarrow> if data = EmptyText then (Inr (VArr []), st) else (JSON_parse data, st))"

text \<open>\<open>sales.unshift(sale)\<close> throws a \<open>TypeError\<close> unless \<open>sales\<close> is an array.\<close>

definition saveSale :: "SaleRecord \<Rightarrow> storage \<Rightarrow> (js_error + unit) \<times> storage" where
  "saveSale sale st =
     (case loadSales st of
        (Inl e, st') \<Rightarrow> (Inl e, st')
      | (Inr sales, st') \<Rightarrow>
          (case sales of
             VArr xs \<Rightarrow>
               (Inr (), st'(SALES_KEY \<mapsto> JSON_stringify (VArr (sale_value sale # xs))))
           | _ \<Rightarrow> (Inl TypeError, st')))"

text \<open>
  \<open>sales.filter((s) => s.id !== id)\<close> throws a \<open>TypeError\<close> unless \<open>sales\<close> is an array, and
  when an element is \<open>null\<close>. An element stays unless its \<open>id\<close> is the very string \<open>id\<close>.
\<close>

definition deleteSale :: "string \<Rightarrow> storage \<Rightarrow> (js_error + unit) \<times> storage" where
  "deleteSale i st =
     (case loadSales st of
        (Inl e, st') \<Rightarrow> (Inl e, st')
      | (Inr sales, st') \<Rightarrow>
          (case sales of
             VArr xs \<Rightarrow>
               if VNull \<in> set xs then (Inl TypeError, st')
               else (Inr (), st'(SALES_KEY \<mapsto>
                       JSON_stringify (VArr (filter (\<lambda>s. get_prop ''id'' s \<noteq> Some (VStr i)) xs))))
           | _ \<Rightarrow> (Inl TypeError, st')))"

text \<open>\<open>handleSave\<close> builds the record and hands it to \<open>saveSale\<close>.\<close>

definition handleSave ::
  "string \<Rightarrow> int \<Rightarrow> MeasurementRow list \<Rightarrow> storage \<Rightarrow> (js_error + unit) \<times> storage" where
  "handleSave uuid now rs st = saveSale (handleSave_sale uuid now rs) st"


section \<open>Inputs, specification-side notions and sample data\<close>


definition row_of :: "real \<times> int \<times> string \<times> int \<Rightarrow> MeasurementRow" where
  "row_of e = (case e of (w, c, u, t) \<Rightarrow>
     \<lparr>row_id = u, weightKg = Fin w, pcs = Fin (of_int c), timestamp = t\<rparr>)"

text \<open>The specification's "finite number greater than 0".\<close>

definition spec_valid_weight :: "number \<Rightarrow> bool" where
  "spec_valid_weight w = (case w of Fin x \<Rightarrow> 0 < x | _ \<Rightarrow> False)"

text \<open>The sum of a list of numbers, added from the left starting at 0 as \<open>reduce\<close> does.\<close>

definition num_sum_left :: "number list \<Rightarrow> number" where
  "num_sum_left xs = foldl num_add (Fin 0) xs"



text \<open>A sale all of whose numbers are finite.\<close>

fun is_fin :: "number \<Rightarrow> bool" where
  "is_fin (Fin x) = True"
| "is_fin _ = False"

definition finite_row :: "MeasurementRow \<Rightarrow> bool" where
  "finite_row r = (is_fin (weightKg r) \<and> is_fin (pcs r))"

definition finite_sale :: "SaleRecord \<Rightarrow> bool" where
  "finite_sale s =
     (is_fin (totalWeightKg s) \<and> is_fin (totalWeightGrams s) \<and> is_fin (totalPcs s)
      \<and> is_fin (averageWeightKg s) \<and> is_fin (averageWeightGrams s)
      \<and> list_all finite_row (rows s))"

fun is_obj :: "jsvalue \<Rightarrow> bool" where
  "is_obj (VObj kvs) = True"
| "is_obj _ = False"


text \<open>
  Sample sales, each built by \<open>handleSave\<close> from rows: two ordinary ones, and one whose
  two weights of \<open>2 ^ 1023\<close> kg add up beyond the largest double.
\<close>

definition sample_sale_a :: SaleRecord where
  "sample_sale_a = handleSave_sale ''sale-a'' 1700000000000
     [row_of (8.25, 6, ''row-2'', 1699999999000), row_of (12.5, 10, ''row-1'', 1699999990000)]"

definition sample_sale_b :: SaleRecord where
  "sample_sale_b = handleSave_sale ''sale-b'' 1700000500000
     [row_of (3, 2, ''row-3'', 1700000400000)]"

definition overflow_sale :: SaleRecord where
  "overflow_sale = handleSave_sale ''sale-x'' 1700000900000
     [row_of (2 ^ 1023, 1, ''row-5'', 1700000800000), row_of (2 ^ 1023, 1, ''row-4'', 1700000700000)]"


section \<open>Rounding to the nearest double\<close>

lemma expo_lower_ge1:
  assumes "1 \<le> \<bar>x\<bar>"
  shows "2 powi (expo x) \<le> \<bar>x\<bar>" "\<bar>x\<bar> < 2 powi (expo x + 1)"
proof -
  let ?n = "\<lfloor>\<bar>x\<bar>\<rfloor>"
  have n: "0 < ?n" using assms by simp
  have b1: "1 \<le> bitlen ?n" using n by (simp add: bitlen_alt_def)
  have e: "expo x = bitlen ?n - 1" using assms by (simp add: expo_def)
  from bitlen_bounds [OF n] have lo: "2 ^ nat (bitlen ?n - 1) \<le> ?n" and hi: "?n < 2 ^ nat (bitlen ?n)"
    by auto
  have "(2::real) powi (bitlen ?n - 1) = 2 ^ nat (bitlen ?n - 1)"
    using b1 by (simp add: power_int_nonneg_exp)
  also have "\<dots> = of_int (2 ^ nat (bitlen ?n - 1))" by simp
  also have "\<dots> \<le> of_int ?n" using lo by (simp only: of_int_le_iff)
  also have "\<dots> \<le> \<bar>x\<bar>" by simp
  finally show "2 powi (expo x) \<le> \<bar>x\<bar>" by (simp add: e)
  have "?n + 1 \<le> 2 ^ nat (bitlen ?n)" using hi by simp
  then have "of_int (?n + 1) \<le> (of_int (2 ^ nat (bitlen ?n)) :: real)" by (simp only: of_int_le_iff)
  then have h1: "of_int ?n + 1 \<le> (2::real) ^ nat (bitlen ?n)" by simp
  have h2: "\<bar>x\<bar> < of_int ?n + 1" by linarith
  from h1 h2 have "\<bar>x\<bar> < 2 ^ nat (bitlen ?n)" by linarith
  also have "\<dots> = 2 powi (bitlen ?n)" using b1 by (simp add: power_int_nonneg_exp)
  finally show "\<bar>x\<bar> < 2 powi (expo x + 1)" by (simp add: e)
qed

lemma expo_lower_lt1:
  assumes "x \<noteq> 0" "\<bar>x\<bar> < 1"
  shows "2 powi (expo x) \<le> \<bar>x\<bar>" "\<bar>x\<bar> < 2 powi (expo x + 1)"
proof -
  let ?r = "1 / \<bar>x\<bar>"
  let ?m = "\<lceil>?r\<rceil> - 1"
  let ?k = "bitlen ?m"
  have ax: "0 < \<bar>x\<bar>" using assms by simp
  have r: "1 < ?r" using assms ax by simp
  have m: "0 < ?m" using r by linarith
  have k1: "1 \<le> ?k" using m by (simp add: bitlen_alt_def)
  have e: "expo x = - ?k" using assms by (simp add: expo_def)
  from bitlen_bounds [OF m] have lo: "2 ^ nat (?k - 1) \<le> ?m" and hi: "?m < 2 ^ nat ?k"
    by auto
  have "\<lceil>?r\<rceil> \<le> 2 ^ nat ?k" using hi by simp
  then have "of_int \<lceil>?r\<rceil> \<le> (of_int (2 ^ nat ?k) :: real)" by (simp only: of_int_le_iff)
  then have "?r \<le> 2 ^ nat ?k" by (simp add: ceiling_le_iff)
  then have "1 \<le> 2 ^ nat ?k * \<bar>x\<bar>" using ax by (simp add: field_simps)
  then have "1 / 2 ^ nat ?k \<le> \<bar>x\<bar>" by (simp add: field_simps)
  moreover have "(2::real) powi (- ?k) = 1 / 2 ^ nat ?k"
    using k1 by (simp add: power_int_minus power_int_nonneg_exp field_simps)
  ultimately show "2 powi (expo x) \<le> \<bar>x\<bar>" by (simp add: e)
  have "of_int (2 ^ nat (?k - 1)) \<le> (of_int ?m :: real)" using lo by (simp only: of_int_le_iff)
  moreover have "of_int ?m < ?r" by linarith
  ultimately have "2 ^ nat (?k - 1) < ?r" by simp
  then have "2 ^ nat (?k - 1) * \<bar>x\<bar> < 1" using ax by (simp add: field_simps)
  then have "\<bar>x\<bar> < 1 / 2 ^ nat (?k - 1)" by (simp add: field_simps)
  moreover have "(2::real) powi (- ?k + 1) = 1 / 2 ^ nat (?k - 1)"
  proof -
    have "(2::real) powi (- ?k + 1) = 2 powi (- (?k - 1))" by simp
    also have "\<dots> = 1 / 2 powi (?k - 1)" by (simp only: power_int_minus_divide)
    also have "\<dots> = 1 / 2 ^ nat (?k - 1)" using k1 by (simp add: power_int_nonneg_exp)
    finally show ?thesis .
  qed
  ultimately show "\<bar>x\<bar> < 2 powi (expo x + 1)" by (simp add: e)
qed

lemma expo_bounds:
  assumes "x \<noteq> 0"
  shows "2 powi (expo x) \<le> \<bar>x\<bar>" "\<bar>x\<bar> < 2 powi (expo x + 1)"
  using assms expo_lower_ge1 [of x] expo_lower_lt1 [of x] by (cases "1 \<le> \<bar>x\<bar>"; simp)+

lemma two_powi_less_cancel: "(2::real) powi a < 2 powi b \<Longrightarrow> a < b"
  using power_int_increasing [of b a "2::real"] by (cases "a < b") auto

lemma expo_eqI:
  assumes "2 powi e \<le> \<bar>x\<bar>" "\<bar>x\<bar> < 2 powi (e + 1)"
  shows "expo x = e"
proof -
  have "(0::real) < 2 powi e" by simp
  then have "0 < \<bar>x\<bar>" using assms(1) by linarith
  then have x: "x \<noteq> 0" by simp
  from expo_bounds [OF x] have a: "2 powi (expo x) \<le> \<bar>x\<bar>" and b: "\<bar>x\<bar> < 2 powi (expo x + 1)"
    by auto
  have "(2::real) powi e < 2 powi (expo x + 1)" using assms(1) b by linarith
  then have 1: "e < expo x + 1" by (rule two_powi_less_cancel)
  have "(2::real) powi (expo x) < 2 powi (e + 1)" using assms(2) a by linarith
  then have 2: "expo x < e + 1" by (rule two_powi_less_cancel)
  from 1 2 show ?thesis by simp
qed

lemma rne_of_int [simp]: "rne (of_int k) = k"
  by (simp add: rne_def)






lemma nearest_exact:
  assumes x: "x = of_int m * 2 powi k" and m: "\<bar>m\<bar> < 2 ^ 53" and k: "- 1074 \<le> k" and nz: "x \<noteq> 0"
  shows "nearest x = x"
proof -
  define q where "q = max (expo x) (- 1022) - 52"
  have qx: "quantum x = 2 powi q" by (simp add: quantum_def q_def)
  have "2 powi (expo x) \<le> \<bar>x\<bar>" by (rule expo_bounds(1) [OF nz])
  also have "\<bar>x\<bar> = \<bar>of_int m\<bar> * 2 powi k" by (simp add: x abs_mult)
  also have "\<dots> < 2 ^ 53 * 2 powi k"
  proof (rule mult_strict_right_mono)
    have "of_int \<bar>m\<bar> < (of_int (2 ^ 53) :: real)" using m by (simp only: of_int_less_iff)
    then show "\<bar>real_of_int m\<bar> < 2 ^ 53" by simp
  qed simp
  also have "\<dots> = 2 powi (k + 53)" by (simp add: power_int_add)
  finally have "expo x < k + 53" by (rule two_powi_less_cancel)
  then have qk: "q \<le> k" using k by (simp add: q_def)
  have "(2::real) powi k = 2 powi (k - q) * 2 powi q" by (simp flip: power_int_add)
  also have "(2::real) powi (k - q) = 2 ^ nat (k - q)" using qk by (simp add: power_int_nonneg_exp)
  finally have "x / 2 powi q = of_int (m * 2 ^ nat (k - q))" by (simp add: x)
  then have "rne (x / 2 powi q) = m * 2 ^ nat (k - q)" by (simp only: rne_of_int)
  then have "nearest x = of_int (m * 2 ^ nat (k - q)) * 2 powi q" by (simp add: nearest_def qx)
  also have "\<dots> = x / 2 powi q * 2 powi q"
    using \<open>x / 2 powi q = of_int (m * 2 ^ nat (k - q))\<close> by simp
  also have "\<dots> = x" by simp
  finally show ?thesis .
qed

lemma fl_exact:
  assumes "x = of_int m * 2 powi k" "\<bar>m\<bar> < 2 ^ 53" "- 1074 \<le> k" "\<bar>x\<bar> < 2 powi 1024"
  shows "fl x = Fin x"
proof (cases "x = 0")
  case True
  then show ?thesis by (simp add: fl_def)
next
  case False
  from nearest_exact [OF assms(1-3) False] assms(4) False show ?thesis by (simp add: fl_def)
qed

lemma fl_int: "\<bar>n\<bar> < 2 ^ 53 \<Longrightarrow> fl (of_int n) = Fin (of_int n)"
proof -
  assume n: "\<bar>n\<bar> < 2 ^ 53"
  then have "of_int \<bar>n\<bar> < (of_int (2 ^ 53) :: real)" by (simp only: of_int_less_iff)
  then have "\<bar>real_of_int n\<bar> < 2 ^ 53" by simp
  also have "(2::real) ^ 53 < 2 powi 1024" by simp
  finally have b: "\<bar>real_of_int n\<bar> < 2 powi 1024" .
  show ?thesis by (rule fl_exact [of _ n 0]) (use n b in simp_all)
qed

lemma fl_eval:
  assumes "2 powi e \<le> \<bar>x\<bar>" "\<bar>x\<bar> < 2 powi (e + 1)" "q = max e (- 1022) - 52"
    and "rne (x / 2 powi q) = m"
  shows "fl x = (if (2::real) powi 1024 \<le> \<bar>of_int m * 2 powi q\<bar>
                 then (if 0 < x then PosInfinity else NegInfinity)
                 else Fin (of_int m * 2 powi q))"
proof -
  have ex: "expo x = e" by (rule expo_eqI [OF assms(1,2)])
  have "(0::real) < 2 powi e" by simp
  then have "0 < \<bar>x\<bar>" using assms(1) by linarith
  then have nz: "x \<noteq> 0" by simp
  have "nearest x = of_int m * 2 powi q"
    using assms(3,4) by (simp add: nearest_def quantum_def ex)
  then show ?thesis using nz by (simp add: fl_def)
qed

text \<open>
  The rounding at work: the double nearest to one tenth; one tenth plus two tenths; two
  weights of \<open>2 ^ 1023\<close>; 1.0005 kg in grams; and the average of 7.133 kg over 14 birds
  in grams.
\<close>

lemma fl_tenth: "fl (1 / 10) = Fin (3602879701896397 / 2 ^ 55)"
  by (subst fl_eval [where e = "- 4" and q = "- 56" and m = 7205759403792794])
    (simp_all add: rne_def)

lemma fl_fifth: "fl (2 / 10) = Fin (3602879701896397 / 2 ^ 54)"
  by (subst fl_eval [where e = "- 3" and q = "- 55" and m = 7205759403792794])
    (simp_all add: rne_def)

lemma fl_tenth_plus_fifth:
  "fl (3602879701896397 / 2 ^ 54 + 3602879701896397 / 2 ^ 55) = Fin (5404319552844596 / 2 ^ 54)"
  by (subst fl_eval [where e = "- 2" and q = "- 54" and m = 5404319552844596])
    (simp_all add: rne_def)

lemma fl_overflow: "fl (2 ^ 1023 + 2 ^ 1023) = PosInfinity"
  by (subst fl_eval [where e = 1024 and q = 972 and m = "2 ^ 52"])
    (simp_all add: rne_def)

lemma kgToGrams_rounds_product: "kgToGrams (Fin (4505851427184181 / 2 ^ 52)) = Fin 1001"
proof -
  have "fl (4505851427184181 / 2 ^ 52 * 1000) = Fin (2001 / 2)"
    by (subst fl_eval [where e = 9 and q = "- 43" and m = 8800491068719104])
      (simp_all add: rne_def)
  then show ?thesis by (simp add: kgToGrams_def)
qed

lemma average_grams_below_half:
  "num_div (Fin (8031044035508437 / 2 ^ 50)) (Fin 14) = Fin (4589168020290535 / 2 ^ 53)"
  "kgToGrams (Fin (4589168020290535 / 2 ^ 53)) = Fin 509"
proof -
  show "num_div (Fin (8031044035508437 / 2 ^ 50)) (Fin 14) = Fin (4589168020290535 / 2 ^ 53)"
    by (simp, subst fl_eval [where e = "- 1" and q = "- 53" and m = 4589168020290535])
      (simp_all add: rne_def)
  have "fl (4589168020290535 / 2 ^ 53 * 1000) = Fin (8963218789629951 / 2 ^ 44)"
    by (subst fl_eval [where e = 8 and q = "- 44" and m = 8963218789629951])
      (simp_all add: rne_def)
  then show "kgToGrams (Fin (4589168020290535 / 2 ^ 53)) = Fin 509"
    by (simp add: kgToGrams_def)
qed


section \<open>Adding rows and the running totals\<close>

lemma handleAddRow_v2_eq: "handleAddRow_v2 w c u t rs = handleAddRow w c u t rs"
  by (simp add: handleAddRow_def handleAddRow_v2_def)












text \<open>
  C1 fails as stated. The weights 0.1 and 0.2, as \<open>parseFloat\<close> reads them, are valid; the
  total the screen computes for them is the double 0.30000000000000004, which is not
  their sum.
\<close>

theorem totals_rounding_counterexample:
  "fl (1 / 10) = Fin (3602879701896397 / 2 ^ 55)
   \<and> fl (2 / 10) = Fin (3602879701896397 / 2 ^ 54)
   \<and> Measurement_totalWeight
       (addRows [(Fin (3602879701896397 / 2 ^ 55), Fin 1, ''a'', 1),
                 (Fin (3602879701896397 / 2 ^ 54), Fin 1, ''b'', 2)] [])
       = Fin (5404319552844596 / 2 ^ 54)
   \<and> Fin (5404319552844596 / 2 ^ 54)
       \<noteq> Fin (3602879701896397 / 2 ^ 55 + 3602879701896397 / 2 ^ 54)"
proof -
  have a: "fl (3602879701896397 / 2 ^ 54) = Fin (3602879701896397 / 2 ^ 54)"
    by (rule fl_exact [of _ 3602879701896397 "- 54"]) simp_all
  have t: "Measurement_totalWeight
       (addRows [(Fin (3602879701896397 / 2 ^ 55), Fin 1, ''a'', 1),
                 (Fin (3602879701896397 / 2 ^ 54), Fin 1, ''b'', 2)] [])
       = Fin (5404319552844596 / 2 ^ 54)"
    using a fl_tenth_plus_fifth
    by (simp add: handleAddRow_def Measurement_totalWeight_def Let_def)
  show ?thesis using fl_tenth fl_fifth t by simp
qed



text \<open>The specification's scenario: the rows (12.5 kg, 10) and (8.25 kg, 6), newest first.\<close>

lemma scenario_totals:
  "Measurement_totalWeight [row_of (8.25, 6, ub, tb), row_of (12.5, 10, ua, ta)] = Fin 20.75"
  "Measurement_totalPcs [row_of (8.25, 6, ub, tb), row_of (12.5, 10, ua, ta)] = Fin 16"
  "Measurement_avgWeight [row_of (8.25, 6, ub, tb), row_of (12.5, 10, ua, ta)] = Fin 1.296875"
proof -
  have a1: "fl 8.25 = Fin 8.25" by (rule fl_exact [of _ 33 "- 2"]) simp_all
  have a2: "fl (8.25 + 12.5) = Fin 20.75" using fl_exact [of "20.75" 83 "- 2"] by simp
  have c1: "fl 6 = Fin 6" using fl_int [of 6] by simp
  have c2: "fl (6 + 10) = Fin 16" using fl_int [of 16] by simp
  have d: "fl (20.75 / 16) = Fin 1.296875" using fl_exact [of "1.296875" 83 "- 6"] by simp
  show w: "Measurement_totalWeight [row_of (8.25, 6, ub, tb), row_of (12.5, 10, ua, ta)] = Fin 20.75"
    using a1 a2 by (simp add: Measurement_totalWeight_def row_of_def)
  show p: "Measurement_totalPcs [row_of (8.25, 6, ub, tb), row_of (12.5, 10, ua, ta)] = Fin 16"
    using c1 c2 by (simp add: Measurement_totalPcs_def row_of_def)
  show "Measurement_avgWeight [row_of (8.25, 6, ub, tb), row_of (12.5, 10, ua, ta)] = Fin 1.296875"
    using d w p by (simp add: Measurement_avgWeight_def)
qed



section \<open>Validation of a new row\<close>

lemma handleAddRow_reject:
  "isNaN w \<or> num_le w (Fin 0) \<or> isNaN c \<or> num_le c (Fin 0) \<Longrightarrow>
   handleAddRow w c u t rs = (Inl ValidationError, rs)"
  by (auto simp: handleAddRow_def)

lemma handleAddRow_accept:
  "\<not> (isNaN w \<or> num_le w (Fin 0) \<or> isNaN c \<or> num_le c (Fin 0)) \<Longrightarrow>
   handleAddRow w c u t rs
     = (Inr \<lparr>row_id = u, weightKg = w, pcs = c, timestamp = t\<rparr>,
        \<lparr>row_id = u, weightKg = w, pcs = c, timestamp = t\<rparr> # rs)"
  by (auto simp: handleAddRow_def Let_def)

lemma not_valid_weight:
  "\<not> spec_valid_weight w \<Longrightarrow> w \<noteq> PosInfinity \<Longrightarrow> isNaN w \<or> num_le w (Fin 0)"
  by (cases w) (auto simp: spec_valid_weight_def)

text \<open>
  C2 fails as stated. \<open>Infinity\<close>, which \<open>parseFloat\<close> returns for the text \<open>Infinity\<close>, is
  not a finite number above 0, yet it is neither \<open>NaN\<close> nor at most 0: the row is added.
\<close>

theorem infinite_weight_accepted:
  "\<not> spec_valid_weight PosInfinity
   \<and> handleAddRow PosInfinity (Fin 1) ''u1'' 0 []
       = (Inr \<lparr>row_id = ''u1'', weightKg = PosInfinity, pcs = Fin 1, timestamp = 0\<rparr>,
          [\<lparr>row_id = ''u1'', weightKg = PosInfinity, pcs = Fin 1, timestamp = 0\<rparr>])"
  by (simp add: spec_valid_weight_def handleAddRow_def Let_def)

text \<open>
  C2, amended. \<open>handleAddRow\<close> gives up with the validation error, leaving the rows as they
  were, exactly when the weight is \<open>NaN\<close> or at most 0 or the count is \<open>NaN\<close> or at most 0.
  So every weight that is not a finite number above 0 is rejected except \<open>Infinity\<close>. Both
  revisions of the screen agree, and the calls with (0, 1), (-1, 1), (1, 0) and (1.5, -3)
  are rejected and leave the rows unchanged.
\<close>

theorem handleAddRow_validation:
  "(fst (handleAddRow w c u t rs) = Inl ValidationError
      \<longleftrightarrow> isNaN w \<or> num_le w (Fin 0) \<or> isNaN c \<or> num_le c (Fin 0))
   \<and> (isNaN w \<or> num_le w (Fin 0) \<or> isNaN c \<or> num_le c (Fin 0)
        \<longrightarrow> handleAddRow w c u t rs = (Inl ValidationError, rs))
   \<and> (\<not> spec_valid_weight w \<and> w \<noteq> PosInfinity
        \<longrightarrow> handleAddRow w c u t rs = (Inl ValidationError, rs))
   \<and> handleAddRow_v2 w c u t rs = handleAddRow w c u t rs
   \<and> handleAddRow (Fin 0) (Fin 1) u t rs = (Inl ValidationError, rs)
   \<and> handleAddRow (Fin (- 1)) (Fin 1) u t rs = (Inl ValidationError, rs)
   \<and> handleAddRow (Fin 1) (Fin 0) u t rs = (Inl ValidationError, rs)
   \<and> handleAddRow (Fin 1.5) (Fin (- 3)) u t rs = (Inl ValidationError, rs)"
proof -
  have a: "fst (handleAddRow w c u t rs) = Inl ValidationError
      \<longleftrightarrow> isNaN w \<or> num_le w (Fin 0) \<or> isNaN c \<or> num_le c (Fin 0)"
  proof (cases "isNaN w \<or> num_le w (Fin 0) \<or> isNaN c \<or> num_le c (Fin 0)")
    case True
    then show ?thesis by (simp add: handleAddRow_reject)
  next
    case False
    then show ?thesis using handleAddRow_accept [OF False] by simp
  qed
  have b: "\<not> spec_valid_weight w \<and> w \<noteq> PosInfinity
        \<longrightarrow> handleAddRow w c u t rs = (Inl ValidationError, rs)"
    using not_valid_weight [of w] handleAddRow_reject [of w c] by blast
  show ?thesis
    using a b by (simp add: handleAddRow_reject handleAddRow_v2_eq)
qed

theorem handleAddRow_validation_witness:
  "(isNaN NaN \<or> num_le NaN (Fin 0) \<or> isNaN (Fin 2) \<or> num_le (Fin 2) (Fin 0))
   \<and> \<not> spec_valid_weight NaN \<and> NaN \<noteq> PosInfinity
   \<and> handleAddRow NaN (Fin 2) ''u1'' 5 [] = (Inl ValidationError, [])
   \<and> fst (handleAddRow (Fin 2) (Fin 3) ''u1'' 5 []) \<noteq> Inl ValidationError"
  using handleAddRow_validation [of NaN "Fin 2" "''u1''" 5 "[]"]
    handleAddRow_validation [of "Fin 2" "Fin 3" "''u1''" 5 "[]"]
  by (simp add: spec_valid_weight_def)


section \<open>Removing the most recent row\<close>

text \<open>
  C3 fails as stated. Off the web the handler only opens an alert: when the user cancels
  it, a list that is not empty keeps its head. (On no path does the handler return a row
  or signal an error: it returns nothing.)
\<close>

theorem cancel_keeps_head:
  "handleDeleteLast Native Cancel
     [\<lparr>row_id = ''u2'', weightKg = Fin 8.25, pcs = Fin 6, timestamp = 2\<rparr>,
      \<lparr>row_id = ''u1'', weightKg = Fin 12.5, pcs = Fin 10, timestamp = 1\<rparr>]
   = [\<lparr>row_id = ''u2'', weightKg = Fin 8.25, pcs = Fin 6, timestamp = 2\<rparr>,
      \<lparr>row_id = ''u1'', weightKg = Fin 12.5, pcs = Fin 10, timestamp = 1\<rparr>]"
  by (simp add: handleDeleteLast_def)




section \<open>The guarded average\<close>

lemma num_gt_zero_not_zero: "num_gt x (Fin 0) \<Longrightarrow> x \<noteq> Fin 0"
  by (cases x) auto

lemma Report_eq_Measurement:
  "Report_totalWeightKg rs = Measurement_totalWeight rs"
  "Report_totalPcs rs = Measurement_totalPcs rs"
  "Report_avgWeightKg rs = Measurement_avgWeight rs"
  by (simp_all add: Report_totalWeightKg_def Measurement_totalWeight_def Report_totalPcs_def
      Measurement_totalPcs_def Report_avgWeightKg_def Measurement_avgWeight_def)

text \<open>
  C4. For every list of rows, on the measurement screen and on the report screen alike:
  when the total count is above 0 the average is the total weight divided by the total
  count, and the divisor is then not 0; when the total count is 0 the average is exactly
  0, and no division takes place.
\<close>

theorem average_guarded:
  "(num_gt (Measurement_totalPcs rs) (Fin 0) \<longrightarrow>
      Measurement_avgWeight rs = num_div (Measurement_totalWeight rs) (Measurement_totalPcs rs)
      \<and> Measurement_totalPcs rs \<noteq> Fin 0)
   \<and> (Measurement_totalPcs rs = Fin 0 \<longrightarrow> Measurement_avgWeight rs = Fin 0)
   \<and> (num_gt (Report_totalPcs rs) (Fin 0) \<longrightarrow>
      Report_avgWeightKg rs = num_div (Report_totalWeightKg rs) (Report_totalPcs rs)
      \<and> Report_totalPcs rs \<noteq> Fin 0)
   \<and> (Report_totalPcs rs = Fin 0 \<longrightarrow> Report_avgWeightKg rs = Fin 0)"
proof -
  have m: "num_gt (Measurement_totalPcs rs) (Fin 0) \<longrightarrow>
      Measurement_avgWeight rs = num_div (Measurement_totalWeight rs) (Measurement_totalPcs rs)
      \<and> Measurement_totalPcs rs \<noteq> Fin 0"
    using num_gt_zero_not_zero [of "Measurement_totalPcs rs"]
    by (simp add: Measurement_avgWeight_def)
  have z: "Measurement_totalPcs rs = Fin 0 \<longrightarrow> Measurement_avgWeight rs = Fin 0"
    by (simp add: Measurement_avgWeight_def)
  show ?thesis
    unfolding Report_eq_Measurement using m z by blast
qed

theorem average_guarded_witness:
  "num_gt (Measurement_totalPcs [row_of (8.25, 6, ''b'', 2), row_of (12.5, 10, ''a'', 1)]) (Fin 0)
   \<and> Measurement_avgWeight [row_of (8.25, 6, ''b'', 2), row_of (12.5, 10, ''a'', 1)]
       = num_div (Fin 20.75) (Fin 16)
   \<and> Measurement_avgWeight [row_of (8.25, 6, ''b'', 2), row_of (12.5, 10, ''a'', 1)]
       = Fin 1.296875
   \<and> Measurement_totalPcs [] = Fin 0
   \<and> Measurement_avgWeight [] = Fin 0"
  using average_guarded [of "[row_of (8.25, 6, ''b'', 2), row_of (12.5, 10, ''a'', 1)]"]
    average_guarded [of "[]"]
    scenario_totals [of "''b''" 2 "''a''" 1]
  by (simp add: Measurement_totalPcs_def del: num_div.simps)


section \<open>The sale record\<close>

lemma Math_round_nearest: "Math_round (Fin p) = Fin (of_int (round p))"
  by (simp add: round_def)

lemma fl_zero: "fl 0 = Fin 0"
  by (simp add: fl_def)

lemma sale_scenario:
  "handleSave_sale uuid now [row_of (8.25, 6, ub, tb), row_of (12.5, 10, ua, ta)] =
     \<lparr>sale_id = uuid,
      totalWeightKg = Fin 20.75,
      totalWeightGrams = Fin 20750,
      totalPcs = Fin 16,
      averageWeightKg = Fin 1.296875,
      averageWeightGrams = Fin 1297,
      rows = [row_of (8.25, 6, ub, tb), row_of (12.5, 10, ua, ta)],
      createdAt = now\<rparr>"
proof -
  have g1: "kgToGrams (Fin 20.75) = Fin 20750"
    using fl_int [of 20750] by (simp add: kgToGrams_def)
  have "fl (1.296875 * 1000) = Fin 1296.875"
    using fl_exact [of "1296.875" 10375 "- 3"] by simp
  then have g2: "kgToGrams (Fin 1.296875) = Fin 1297"
    by (simp add: kgToGrams_def)
  show ?thesis
    unfolding handleSave_sale_def Report_totalWeightGrams_def Report_avgWeightGrams_def
      Report_eq_Measurement scenario_totals g1 g2 ..
qed

lemma sale_single:
  "handleSave_sale uuid now [row_of (3, 2, u, t)] =
     \<lparr>sale_id = uuid, totalWeightKg = Fin 3, totalWeightGrams = Fin 3000, totalPcs = Fin 2,
      averageWeightKg = Fin 1.5, averageWeightGrams = Fin 1500,
      rows = [row_of (3, 2, u, t)], createdAt = now\<rparr>"
proof -
  have a: "fl 3 = Fin 3" using fl_int [of 3] by simp
  have b: "fl 2 = Fin 2" using fl_int [of 2] by simp
  have c: "fl (3 / 2) = Fin (3 / 2)" using fl_exact [of "3 / 2" 3 "- 1"] by simp
  have d: "fl 3000 = Fin 3000" using fl_int [of 3000] by simp
  have e: "fl 1500 = Fin 1500" using fl_int [of 1500] by simp
  show ?thesis
    using a b c d e
    by (simp add: handleSave_sale_def Report_totalWeightGrams_def Report_avgWeightGrams_def
        Report_totalWeightKg_def Report_totalPcs_def Report_avgWeightKg_def kgToGrams_def
        row_of_def)
qed

lemma sale_overflow:
  "handleSave_sale uuid now [row_of (2 ^ 1023, 1, ub, tb), row_of (2 ^ 1023, 1, ua, ta)] =
     \<lparr>sale_id = uuid, totalWeightKg = PosInfinity, totalWeightGrams = PosInfinity,
      totalPcs = Fin 2, averageWeightKg = PosInfinity, averageWeightGrams = PosInfinity,
      rows = [row_of (2 ^ 1023, 1, ub, tb), row_of (2 ^ 1023, 1, ua, ta)], createdAt = now\<rparr>"
proof -
  have a: "fl (2 ^ 1023) = Fin (2 ^ 1023)" by (rule fl_exact [of _ 1 1023]) simp_all
  have b: "fl 1 = Fin 1" using fl_int [of 1] by simp
  have c: "fl 2 = Fin 2" using fl_int [of 2] by simp
  have w: "Report_totalWeightKg [row_of (2 ^ 1023, 1, ub, tb), row_of (2 ^ 1023, 1, ua, ta)]
      = PosInfinity"
    using a fl_overflow by (simp add: Report_totalWeightKg_def row_of_def)
  have p: "Report_totalPcs [row_of (2 ^ 1023, 1, ub, tb), row_of (2 ^ 1023, 1, ua, ta)] = Fin 2"
    using b c by (simp add: Report_totalPcs_def row_of_def)
  have v: "Report_avgWeightKg [row_of (2 ^ 1023, 1, ub, tb), row_of (2 ^ 1023, 1, ua, ta)]
      = PosInfinity"
    using w p by (simp add: Report_avgWeightKg_def)
  have g: "kgToGrams PosInfinity = PosInfinity" by (simp add: kgToGrams_def)
  show ?thesis
    unfolding handleSave_sale_def Report_totalWeightGrams_def Report_avgWeightGrams_def w p v g ..
qed

lemma sale_empty:
  "handleSave_sale uuid now [] =
     \<lparr>sale_id = uuid, totalWeightKg = Fin 0, totalWeightGrams = Fin 0, totalPcs = Fin 0,
      averageWeightKg = Fin 0, averageWeightGrams = Fin 0, rows = [], createdAt = now\<rparr>"
  by (simp add: handleSave_sale_def Report_totalWeightGrams_def Report_avgWeightGrams_def
      Report_totalWeightKg_def Report_totalPcs_def Report_avgWeightKg_def kgToGrams_def fl_zero)

text \<open>
  C5. For every list of rows the record built on the report screen holds the sum of the
  weights and the sum of the counts, each added from the left as \<open>reduce\<close> does, the
  guarded quotient of the two as average, each gram field as \<open>Math.round\<close> (the nearest
  integer) of 1000 times its kilogram field, and the rows themselves in their order. For
  the rows (12.5 kg, 10) and (8.25 kg, 6) the record holds 20.75, 16, 1.296875, 20750
  grams and 1297 grams; for no rows it holds 0, 0, 0 and the empty list.
\<close>

theorem sale_of_rows:
  "totalWeightKg (handleSave_sale uuid now rs) = num_sum_left (map weightKg rs)
   \<and> totalPcs (handleSave_sale uuid now rs) = num_sum_left (map pcs rs)
   \<and> averageWeightKg (handleSave_sale uuid now rs) =
       (if num_gt (totalPcs (handleSave_sale uuid now rs)) (Fin 0)
        then num_div (totalWeightKg (handleSave_sale uuid now rs))
               (totalPcs (handleSave_sale uuid now rs))
        else Fin 0)
   \<and> totalWeightGrams (handleSave_sale uuid now rs)
       = Math_round (num_mul (totalWeightKg (handleSave_sale uuid now rs)) (Fin 1000))
   \<and> averageWeightGrams (handleSave_sale uuid now rs)
       = Math_round (num_mul (averageWeightKg (handleSave_sale uuid now rs)) (Fin 1000))
   \<and> Math_round (Fin p) = Fin (of_int (round p))
   \<and> rows (handleSave_sale uuid now rs) = rs
   \<and> createdAt (handleSave_sale uuid now rs) = now
   \<and> handleSave_sale uuid 1700000000000 [row_of (8.25, 6, ub, tb), row_of (12.5, 10, ua, ta)] =
     \<lparr>sale_id = uuid,
      totalWeightKg = Fin 20.75,
      totalWeightGrams = Fin 20750,
      totalPcs = Fin 16,
      averageWeightKg = Fin 1.296875,
      averageWeightGrams = Fin 1297,
      rows = [row_of (8.25, 6, ub, tb), row_of (12.5, 10, ua, ta)],
      createdAt = 1700000000000\<rparr>
   \<and> handleSave_sale uuid now [] =
     \<lparr>sale_id = uuid, totalWeightKg = Fin 0, totalWeightGrams = Fin 0, totalPcs = Fin 0,
      averageWeightKg = Fin 0, averageWeightGrams = Fin 0, rows = [], createdAt = now\<rparr>"
proof -
  have w: "totalWeightKg (handleSave_sale uuid now rs) = num_sum_left (map weightKg rs)"
    by (simp add: handleSave_sale_def Report_totalWeightKg_def num_sum_left_def foldl_map)
  have p: "totalPcs (handleSave_sale uuid now rs) = num_sum_left (map pcs rs)"
    by (simp add: handleSave_sale_def Report_totalPcs_def num_sum_left_def foldl_map)
  have q: "averageWeightKg (handleSave_sale uuid now rs) =
       (if num_gt (totalPcs (handleSave_sale uuid now rs)) (Fin 0)
        then num_div (totalWeightKg (handleSave_sale uuid now rs))
               (totalPcs (handleSave_sale uuid now rs))
        else Fin 0)"
    by (simp add: handleSave_sale_def Report_avgWeightKg_def)
  have g: "totalWeightGrams (handleSave_sale uuid now rs)
       = Math_round (num_mul (totalWeightKg (handleSave_sale uuid now rs)) (Fin 1000))"
    by (simp add: handleSave_sale_def Report_totalWeightGrams_def kgToGrams_def)
  have a: "averageWeightGrams (handleSave_sale uuid now rs)
       = Math_round (num_mul (averageWeightKg (handleSave_sale uuid now rs)) (Fin 1000))"
    by (simp add: handleSave_sale_def Report_avgWeightGrams_def kgToGrams_def)
  have r: "rows (handleSave_sale uuid now rs) = rs" "createdAt (handleSave_sale uuid now rs) = now"
    by (simp_all add: handleSave_sale_def)
  note s = sale_scenario [of uuid 1700000000000 ub tb ua ta]
  note e = sale_empty [of uuid now]
  note m = Math_round_nearest [of p]
  show ?thesis
    by (rule conjI [OF w], rule conjI [OF p], rule conjI [OF q], rule conjI [OF g],
        rule conjI [OF a], rule conjI [OF m], rule conjI [OF r(1)], rule conjI [OF r(2)],
        rule conjI [OF s], rule e)
qed

theorem sale_of_rows_witness:
  "num_gt (totalPcs (handleSave_sale ''s'' 30 [row_of (3, 2, ''r'', 20)])) (Fin 0)
   \<and> totalWeightKg (handleSave_sale ''s'' 30 [row_of (3, 2, ''r'', 20)])
       = num_sum_left [Fin 3]
   \<and> handleSave_sale ''s'' 30 [row_of (3, 2, ''r'', 20)] =
     \<lparr>sale_id = ''s'', totalWeightKg = Fin 3, totalWeightGrams = Fin 3000, totalPcs = Fin 2,
      averageWeightKg = Fin 1.5, averageWeightGrams = Fin 1500,
      rows = [row_of (3, 2, ''r'', 20)], createdAt = 30\<rparr>"
  using sale_of_rows [of "''s''" 30 "[row_of (3, 2, ''r'', 20)]"]
    sale_single [of "''s''" 30 "''r''" 20]
  by (simp add: row_of_def del: num_add.simps)


section \<open>Values written and read back\<close>

lemma json_of_num: "(json_of (VNum n) = VNum n) = is_fin n"
  by (cases n) simp_all



lemma map_of_map_prod: "map_of (map (map_prod id f) kvs) k = map_option f (map_of kvs k)"
  by (induction kvs) auto

lemma prop_json_of: "get_prop k (json_of v) = map_option json_of (get_prop k v)"
proof (cases v)
  case (VNum n)
  then show ?thesis by (cases n) simp_all
qed (simp_all add: map_of_map_prod)



lemma is_obj_not_null: "is_obj v \<Longrightarrow> v \<noteq> VNull"
  by (cases v) simp_all



lemma prop_id_sale_value: "get_prop ''id'' (sale_value s) = Some (VStr (sale_id s))"
  by (simp add: sale_value_def)

lemma is_obj_sale_value: "is_obj (sale_value s)"
  by (simp add: sale_value_def)

lemma json_of_row_value: "(json_of (row_value r) = row_value r) = finite_row r"
  by (auto simp: row_value_def finite_row_def json_of_num simp del: json_of.simps(3))

lemma json_of_row_values:
  "(map json_of (map row_value rs) = map row_value rs) = list_all finite_row rs"
  by (induction rs) (simp_all add: json_of_row_value)

lemma json_of_sale_value: "(json_of (sale_value s) = sale_value s) = finite_sale s"
  using json_of_row_values [of "rows s"]
  by (auto simp: sale_value_def finite_sale_def json_of_num simp del: json_of.simps(3))


section \<open>Storage\<close>

lemma loadSales_snd: "snd (loadSales st) = st"
  by (simp add: loadSales_def split: option.splits)

lemma saveSale_ok:
  "fst (loadSales st) = Inr (VArr xs) \<Longrightarrow>
   saveSale sale st = (Inr (), st(SALES_KEY \<mapsto> JSON_stringify (VArr (sale_value sale # xs))))"
  using loadSales_snd [of st] by (cases "loadSales st") (simp add: saveSale_def)

lemma deleteSale_ok:
  "fst (loadSales st) = Inr (VArr xs) \<Longrightarrow> VNull \<notin> set xs \<Longrightarrow>
   deleteSale i st
     = (Inr (), st(SALES_KEY \<mapsto>
          JSON_stringify (VArr (filter (\<lambda>s. get_prop ''id'' s \<noteq> Some (VStr i)) xs))))"
  using loadSales_snd [of st] by (cases "loadSales st") (simp add: deleteSale_def)

lemma loadSales_written: "fst (loadSales (st(SALES_KEY \<mapsto> JSON_stringify v))) = Inr (json_of v)"
  by (simp add: loadSales_def JSON_stringify_def)

lemma sample_ids:
  "sale_id sample_sale_a = ''sale-a''" "sale_id sample_sale_b = ''sale-b''"
  "sale_id overflow_sale = ''sale-x''"
  by (simp_all add: sample_sale_a_def sample_sale_b_def overflow_sale_def handleSave_sale_def)

lemma sample_finite: "finite_sale sample_sale_a" "finite_sale sample_sale_b"
  by (simp_all only: sample_sale_a_def sample_sale_b_def sale_scenario sale_single)
    (simp_all add: finite_sale_def finite_row_def row_of_def)

lemma sample_json:
  "json_of (sale_value sample_sale_a) = sale_value sample_sale_a"
  "json_of (sale_value sample_sale_b) = sale_value sample_sale_b"
  by (simp_all add: json_of_sale_value sample_finite)

lemma sample_distinct: "sale_value sample_sale_a \<noteq> sale_value sample_sale_b"
  using prop_id_sale_value [of sample_sale_a] prop_id_sale_value [of sample_sale_b]
  by (auto simp: sample_ids)

text \<open>
  C6 fails as stated. The identifier of the record is the value \<open>Crypto.randomUUID()\<close>
  returns at the call, so two calls on the same rows and the same time stamp give records
  that differ in that field.
\<close>

theorem fresh_id_counterexample:
  "handleSave_sale ''id-1'' 1700000000000 [] \<noteq> handleSave_sale ''id-2'' 1700000000000 []"
  by (simp add: handleSave_sale_def)

text \<open>
  C6, amended. The record is a function of the rows, the time stamp and the identifier
  drawn: for the same rows and time stamp, two calls give records equal in every field
  but the identifier, which is the one drawn at the call. Building the record touches no
  storage; \<open>handleSave\<close>, which builds it, then hands it to \<open>saveSale\<close>, which writes the
  collection with the record in front.
\<close>

theorem sale_determined_up_to_id:
  "handleSave_sale ua now rs = (handleSave_sale ub now rs)\<lparr>sale_id := ua\<rparr>
   \<and> sale_id (handleSave_sale ua now rs) = ua
   \<and> (fst (loadSales st) = Inr (VArr xs) \<longrightarrow>
        handleSave ua now rs st
          = (Inr (), st(SALES_KEY \<mapsto>
               JSON_stringify (VArr (sale_value (handleSave_sale ua now rs) # xs)))))"
  using saveSale_ok [of st xs "handleSave_sale ua now rs"]
  by (simp add: handleSave_sale_def handleSave_def)

theorem sale_determined_up_to_id_witness:
  "fst (loadSales Map.empty) = Inr (VArr [])
   \<and> handleSave ''sale-b'' 1700000500000 [row_of (3, 2, ''row-3'', 1700000400000)] Map.empty
       = (Inr (), [SALES_KEY \<mapsto> JsonText (VArr [sale_value sample_sale_b])])"
  using sale_determined_up_to_id [of "''sale-b''" 1700000500000
      "[row_of (3, 2, ''row-3'', 1700000400000)]" "''sale-b''" Map.empty "[]"]
    sample_json(2)
  by (simp add: loadSales_def JSON_stringify_def sample_sale_b_def)


text \<open>
  C7 fails as stated. The sale that \<open>handleSave\<close> builds from two rows of \<open>2 ^ 1023\<close> kg
  has the total weight \<open>Infinity\<close>; \<open>JSON.stringify\<close> writes \<open>null\<close> for it, so what
  \<open>loadSales\<close> yields first after \<open>saveSale\<close> is not that sale.
\<close>

theorem overflow_sale_counterexample:
  "totalWeightKg overflow_sale = PosInfinity
   \<and> fst (saveSale overflow_sale Map.empty) = Inr ()
   \<and> fst (loadSales (snd (saveSale overflow_sale Map.empty)))
       = Inr (VArr [json_of (sale_value overflow_sale)])
   \<and> get_prop ''totalWeightKg'' (sale_value overflow_sale) = Some (VNum PosInfinity)
   \<and> get_prop ''totalWeightKg'' (json_of (sale_value overflow_sale)) = Some VNull
   \<and> json_of (sale_value overflow_sale) \<noteq> sale_value overflow_sale"
proof -
  have t: "totalWeightKg overflow_sale = PosInfinity"
    by (simp only: overflow_sale_def sale_overflow) simp
  have l: "fst (loadSales Map.empty) = Inr (VArr [])" by (simp add: loadSales_def)
  have s: "saveSale overflow_sale Map.empty
      = (Inr (), [SALES_KEY \<mapsto> JSON_stringify (VArr [sale_value overflow_sale])])"
    by (rule saveSale_ok [OF l])
  have r: "fst (loadSales (snd (saveSale overflow_sale Map.empty)))
       = Inr (VArr [json_of (sale_value overflow_sale)])"
    by (simp add: s loadSales_written)
  have p1: "get_prop ''totalWeightKg'' (sale_value overflow_sale) = Some (VNum PosInfinity)"
    by (simp add: sale_value_def t)
  have p2: "get_prop ''totalWeightKg'' (json_of (sale_value overflow_sale)) = Some VNull"
    by (simp add: prop_json_of p1)
  have n: "json_of (sale_value overflow_sale) \<noteq> sale_value overflow_sale"
    using p1 p2 by auto
  show ?thesis using t s r p1 p2 n by simp
qed



text \<open>
  C8. On a storage that holds nothing, and on any storage with no item under the sales
  key, \<open>loadSales\<close> returns the empty list, not an error; and \<open>loadSales\<close> leaves every
  storage as it found it.
\<close>

theorem loadSales_never_written:
  "loadSales Map.empty = (Inr (VArr []), Map.empty)
   \<and> (st SALES_KEY = None \<longrightarrow> loadSales st = (Inr (VArr []), st))
   \<and> snd (loadSales st) = st"
  by (simp add: loadSales_def split: option.splits)

theorem loadSales_never_written_witness:
  "[''theme'' \<mapsto> JsonText (VStr ''dark'')] SALES_KEY = None
   \<and> loadSales [''theme'' \<mapsto> JsonText (VStr ''dark'')]
       = (Inr (VArr []), [''theme'' \<mapsto> JsonText (VStr ''dark'')])"
  using loadSales_never_written [of "[''theme'' \<mapsto> JsonText (VStr ''dark'')]"]
  by (simp add: SALES_KEY_def)




lemma count_list_filter: "P s \<Longrightarrow> count_list (filter P xs) s = count_list xs s"
  by (induction xs) auto

lemma filter_sale_values:
  "filter (\<lambda>s. get_prop ''id'' s \<noteq> Some (VStr i)) (map sale_value hist)
     = map sale_value (filter (\<lambda>s. sale_id s \<noteq> i) hist)"
  by (induction hist) (simp_all add: prop_id_sale_value)

text \<open>
  C10. Let the storage read as an array without \<open>null\<close> (a persisted history). Then
  \<open>deleteSale\<close> succeeds and changes the storage under the sales key only, where it writes
  a collection that holds no element of the given identifier, holds every other element
  as often as the array does, and keeps the order the elements have in the array. On the
  sales of a history, the elements that go are exactly the sales of that identifier.
\<close>

theorem deleteSale_removes_exactly:
  assumes "fst (loadSales st) = Inr (VArr xs)" and "VNull \<notin> set xs"
  shows "deleteSale i st
           = (Inr (), st(SALES_KEY \<mapsto>
                JSON_stringify (VArr (filter (\<lambda>s. get_prop ''id'' s \<noteq> Some (VStr i)) xs))))
       \<and> (\<forall>s \<in> set (filter (\<lambda>s. get_prop ''id'' s \<noteq> Some (VStr i)) xs).
             get_prop ''id'' s \<noteq> Some (VStr i))
       \<and> (\<forall>s. get_prop ''id'' s \<noteq> Some (VStr i) \<longrightarrow>
            count_list (filter (\<lambda>s. get_prop ''id'' s \<noteq> Some (VStr i)) xs) s = count_list xs s)
       \<and> subseq (filter (\<lambda>s. get_prop ''id'' s \<noteq> Some (VStr i)) xs) xs
       \<and> filter (\<lambda>s. get_prop ''id'' s \<noteq> Some (VStr i)) (map sale_value hist)
           = map sale_value (filter (\<lambda>s. sale_id s \<noteq> i) hist)"
  using deleteSale_ok [OF assms, of i] by (simp add: count_list_filter filter_sale_values)

theorem deleteSale_removes_exactly_witness:
  "fst (loadSales [SALES_KEY \<mapsto> JsonText (VArr [sale_value sample_sale_a,
          sale_value sample_sale_b, sale_value sample_sale_a]),
        ''theme'' \<mapsto> JsonText (VStr ''dark'')])
     = Inr (VArr [sale_value sample_sale_a, sale_value sample_sale_b, sale_value sample_sale_a])
   \<and> VNull \<notin> set [sale_value sample_sale_a, sale_value sample_sale_b, sale_value sample_sale_a]
   \<and> deleteSale ''sale-a'' [SALES_KEY \<mapsto> JsonText (VArr [sale_value sample_sale_a,
          sale_value sample_sale_b, sale_value sample_sale_a]),
        ''theme'' \<mapsto> JsonText (VStr ''dark'')]
       = (Inr (), [SALES_KEY \<mapsto> JsonText (VArr [sale_value sample_sale_b]),
                   ''theme'' \<mapsto> JsonText (VStr ''dark'')])"
proof -
  let ?st = "[SALES_KEY \<mapsto> JsonText (VArr [sale_value sample_sale_a,
          sale_value sample_sale_b, sale_value sample_sale_a]),
        ''theme'' \<mapsto> JsonText (VStr ''dark'')]"
  have l: "fst (loadSales ?st)
     = Inr (VArr [sale_value sample_sale_a, sale_value sample_sale_b, sale_value sample_sale_a])"
    by (simp add: loadSales_def SALES_KEY_def)
  have n: "VNull \<notin> set [sale_value sample_sale_a, sale_value sample_sale_b, sale_value sample_sale_a]"
    using is_obj_sale_value [of sample_sale_a] is_obj_sale_value [of sample_sale_b]
    by (auto dest: is_obj_not_null)
  have m: "?st(SALES_KEY \<mapsto> JsonText (VArr [sale_value sample_sale_b]))
      = [SALES_KEY \<mapsto> JsonText (VArr [sale_value sample_sale_b]),
         ''theme'' \<mapsto> JsonText (VStr ''dark'')]"
    by (simp add: SALES_KEY_def fun_upd_twist)
  show ?thesis
    using deleteSale_removes_exactly [OF l n, of "''sale-a''"] l n m sample_json
    by (simp add: prop_id_sale_value sample_ids JSON_stringify_def)
qed


end
